theory Spec2Isabelle
  imports Main "HOL-Library.Sublist"
begin

section \<open>JavaScript values used by lib/build.js\<close>

text \<open>
  File names and file contents are JavaScript strings. An object whose values are strings
  (an attribute mapping) is the list of its own enumerable properties in iteration order:
  \<open>Object.keys\<close> lists the keys in that order and \<open>m[k]\<close> looks a key up. A JavaScript
  object holds every key once, so a well-formed \<open>jsobject\<close> has distinct keys.
\<close>

type_synonym filepath = string

type_synonym jsobject = "(string \<times> string) list"

definition Object_keys :: "jsobject \<Rightarrow> string list" where
  "Object_keys m = map fst m"

definition js_get :: "jsobject \<Rightarrow> string \<Rightarrow> string" where
  "js_get m k = (case map_of m k of Some v \<Rightarrow> v | None \<Rightarrow> ''undefined'')"

text \<open>\<open>Array.prototype.join\<close> on an array of strings.\<close>

fun join :: "string \<Rightarrow> string list \<Rightarrow> string" where
  "join sep [] = []"
| "join sep [x] = x"
| "join sep (x # y # ys) = x @ sep @ join sep (y # ys)"

section \<open>Head tags and page meta tags (lines 90-107 and 135-144)\<close>

record HeadTagSpec =
  tag :: string
  attrs :: "jsobject option"
  innerHTML :: "string option"

definition needsClosing :: "string \<Rightarrow> bool" where
  "needsClosing t = (\<not> (t = ''link'' \<or> t = ''meta''))"

text \<open>\<open>renderAttrs (attrs = {})\<close>: an absent argument is the empty object.\<close>

definition renderAttrs :: "jsobject option \<Rightarrow> string" where
  \<open>renderAttrs a =
     (let attrs = (case a of None \<Rightarrow> [] | Some m \<Rightarrow> m);
          keys = Object_keys attrs
      in if length keys \<noteq> 0
         then '' '' @ join '' '' (map (\<lambda>name. name @ ''="'' @ js_get attrs name @ ''"'') keys)
         else [])\<close>

definition renderHeadTag :: "HeadTagSpec \<Rightarrow> string" where
  \<open>renderHeadTag t =
     ''<'' @ tag t @ renderAttrs (attrs t) @ ''>''
     @ (case innerHTML t of None \<Rightarrow> [] | Some h \<Rightarrow> h)
     @ (if needsClosing (tag t) then ''</'' @ tag t @ ''>'' else [])\<close>

text \<open>
  \<open>renderPageMeta\<close>: \<open>!meta\<close> holds for an absent sequence only (an empty array is truthy);
  the \<open>forEach\<close> that appends to \<open>res\<close> is a fold over the keys.
\<close>

definition renderPageMeta :: "jsobject list option \<Rightarrow> string" where
  \<open>renderPageMeta meta =
     (case meta of
        None \<Rightarrow> []
      | Some ms \<Rightarrow>
          join [] (map (\<lambda>m. fold (\<lambda>key res. res @ '' '' @ key @ ''="'' @ js_get m key @ ''"'')
                                  (Object_keys m) ''<meta'' @ ''>'') ms))\<close>

subsection \<open>The head-tag format as the specification words it\<close>

text \<open>
  One \<open>name="value"\<close> pair per property; the pairs of a non-empty mapping follow a leading
  space and are separated by single spaces; \<open>link\<close> and \<open>meta\<close> get no closing tag.
\<close>

definition spec_pair :: "string \<times> string \<Rightarrow> string" where
  \<open>spec_pair p = fst p @ ''="'' @ snd p @ ''"''\<close>



definition spec_metaTag :: "jsobject \<Rightarrow> string" where
  "spec_metaTag m = ''<meta'' @ concat (map (\<lambda>p. '' '' @ spec_pair p) m) @ ''>''"

section \<open>The compile report and the chunk patterns (lines 146-161)\<close>

text \<open>
  What the build reads of webpack's result: \<open>stats.hasErrors()\<close> and \<open>stats.toJson()\<close>, whose
  \<open>errors\<close> are the error messages and whose \<open>children\<close> are the per-target results in the
  order of the configurations, each with its emitted \<open>assets\<close>. The option \<open>modules: false\<close>
  of the second \<open>toJson\<close> call strips module detail, which the build never reads.
\<close>

record asset =
  name :: string

record TargetResult =
  assets :: "asset list"

record CompileReport =
  errors :: "string list"
  children :: "TargetResult list"

record webpackStats =
  hasErrors :: bool
  toJson :: CompileReport

text \<open>The character class \<open>\w\<close> of a JavaScript regular expression.\<close>

definition word_chars :: string where
  "word_chars = ''abcdefghijklmnopqrstuvwxyzABCDEFGHIJKLMNOPQRSTUVWXYZ0123456789_''"

definition is_word :: "char \<Rightarrow> bool" where
  "is_word c = (c \<in> set word_chars)"

text \<open>
  \<open>chunk_here lit t\<close>: the whole of \<open>t\<close> is \<open>lit\<close>, eight word characters and \<open>.js\<close>.
  \<open>chunk_test lit\<close> is \<open>/lit\w{8}\.js$/.test\<close>: the pattern is anchored at the end of the
  name only, so a match may start at any position of it.
\<close>

definition chunk_here :: "string \<Rightarrow> string \<Rightarrow> bool" where
  "chunk_here lit t =
     (take (length lit) t = lit \<and>
      (let r = drop (length lit) t
       in length r = 11 \<and> list_all is_word (take 8 r) \<and> drop 8 r = ''.js''))"

definition chunk_test :: "string \<Rightarrow> string \<Rightarrow> bool" where
  "chunk_test lit s = list_ex (chunk_here lit) (suffixes s)"

definition styleChunkRE :: "string \<Rightarrow> bool" where
  "styleChunkRE = chunk_test ''styles.''"

definition appChunkRE :: "string \<Rightarrow> bool" where
  "appChunkRE = chunk_test ''app.''"

subsection \<open>The search as the specification words it\<close>

text \<open>
  The specification searches the asset list of the server target, the second of the
  targets \<open>[client, server]\<close>.
\<close>

definition spec_serverAssets :: "CompileReport \<Rightarrow> asset list" where
  "spec_serverAssets stats = (case children stats of [client, server] \<Rightarrow> assets server | _ \<Rightarrow> [])"

definition spec_findChunk :: "(string \<Rightarrow> bool) \<Rightarrow> CompileReport \<Rightarrow> asset option" where
  "spec_findChunk re stats = find (\<lambda>a. re (name a)) (spec_serverAssets stats)"

section \<open>Site options, pages and render contexts\<close>

record Frontmatter =
  meta :: "jsobject list option"

record Page =
  path :: string
  frontmatter :: "Frontmatter option"

record SiteConfig =
  head :: "HeadTagSpec list option"

record SiteData =
  pages :: "Page list"

record SiteOptions =
  outDir :: filepath
  siteConfig :: SiteConfig
  siteData :: SiteData

record cliOptions =
  cli_outDir :: "filepath option"

record RenderContext =
  url :: string
  userHeadTags :: string
  pageMeta :: string
  title :: string
  lang :: string

record RenderError =
  message :: string
  stack :: string

section \<open>Effects: the file tree, the trace of calls, and failures\<close>

text \<open>
  The file tree maps the location of every regular file to its content. A step of the build
  takes the tree and returns its result or the exception that rejects the build, the tree
  it leaves, and the calls it made in order. Reading a missing file fails; \<open>writeFile\<close>,
  \<open>mkdirp\<close> and \<open>rimraf\<close> are taken at their contract and succeed (the build handles none
  of their errors). \<open>require\<close> of a JSON file gives its content, which the build hands to the
  renderer unread. The trace records a call where it took effect: a read that fails leaves
  no entry.
\<close>

type_synonym filetree = "filepath \<rightharpoonup> string"

datatype error =
    PrepareRejected string
  | WebpackRejected string
  | Error string
  | ModuleNotFound filepath
  | ENOENT filepath
  | TypeError string

datatype event =
    SetEnv string string
  | Rimraf filepath
  | Webpack
  | Require filepath
  | ReadFile filepath
  | WriteFile filepath string
  | Mkdirp filepath
  | RenderToString RenderContext "RenderError + string"
  | ConsoleError string
  | ConsoleLog string

type_synonym 'a io = "filetree \<Rightarrow> (error + 'a) \<times> filetree \<times> event list"

definition io_return :: "'a \<Rightarrow> 'a io" where
  "io_return x fs = (Inr x, fs, [])"

definition io_throw :: "error \<Rightarrow> 'a io" where
  "io_throw e fs = (Inl e, fs, [])"

definition io_bind :: "'a io \<Rightarrow> ('a \<Rightarrow> 'b io) \<Rightarrow> 'b io" where
  "io_bind m f fs =
     (case m fs of
        (Inl e, fs', evs) \<Rightarrow> (Inl e, fs', evs)
      | (Inr x, fs', evs) \<Rightarrow> (case f x fs' of (r, fs'', evs') \<Rightarrow> (r, fs'', evs @ evs')))"

definition io_emit :: "event \<Rightarrow> unit io" where
  "io_emit e fs = (Inr (), fs, [e])"

definition io_lift :: "error + 'a \<Rightarrow> 'a io" where
  "io_lift r = (case r of Inl e \<Rightarrow> io_throw e | Inr x \<Rightarrow> io_return x)"

primrec io_forEach :: "('a \<Rightarrow> unit io) \<Rightarrow> 'a list \<Rightarrow> unit io" where
  "io_forEach f [] = io_return ()"
| "io_forEach f (x # xs) = io_bind (f x) (\<lambda>_. io_forEach f xs)"

text \<open>
  What the build calls and does not define: Node's \<open>path\<close> module and \<open>process.cwd()\<close>,
  \<open>__dirname\<close>, the colours of \<open>chalk\<close>, \<open>./prepare\<close>, the two webpack configurations,
  webpack itself (which writes its output into the tree) and the bundle renderer of
  \<open>vue-server-renderer\<close>. \<open>below d q\<close> says that location \<open>q\<close> lies inside directory \<open>d\<close>.
  \<open>prepare\<close> reads the sources and may reject; what it writes is no part of the output tree.
\<close>

record 'cfg env =
  cwd :: filepath
  module_dirname :: filepath
  path_resolve :: "filepath \<Rightarrow> string \<Rightarrow> filepath"
  path_dirname :: "filepath \<Rightarrow> filepath"
  path_relative :: "filepath \<Rightarrow> filepath \<Rightarrow> string"
  below :: "filepath \<Rightarrow> filepath \<Rightarrow> bool"
  chalk_red :: "string \<Rightarrow> string"
  chalk_green :: "string \<Rightarrow> string"
  chalk_cyan :: "string \<Rightarrow> string"
  prepare :: "string \<Rightarrow> filetree \<Rightarrow> string + SiteOptions"
  createClientConfig :: "SiteOptions \<Rightarrow> cliOptions \<Rightarrow> 'cfg"
  createServerConfig :: "SiteOptions \<Rightarrow> cliOptions \<Rightarrow> 'cfg"
  webpack :: "'cfg list \<Rightarrow> filetree \<Rightarrow> (string + webpackStats) \<times> filetree"
  createBundleRenderer :: "string \<Rightarrow> string \<Rightarrow> string \<Rightarrow> RenderContext \<Rightarrow> RenderError + string"

definition readFile :: "filepath \<Rightarrow> string io" where
  "readFile p fs = (case fs p of None \<Rightarrow> (Inl (ENOENT p), fs, []) | Some c \<Rightarrow> (Inr c, fs, [ReadFile p]))"

definition require :: "filepath \<Rightarrow> string io" where
  "require p fs =
     (case fs p of None \<Rightarrow> (Inl (ModuleNotFound p), fs, []) | Some c \<Rightarrow> (Inr c, fs, [Require p]))"

definition writeFile :: "filepath \<Rightarrow> string \<Rightarrow> unit io" where
  "writeFile p c fs = (Inr (), fs(p \<mapsto> c), [WriteFile p c])"

definition mkdirp :: "filepath \<Rightarrow> unit io" where
  "mkdirp p fs = (Inr (), fs, [Mkdirp p])"

text \<open>\<open>rimraf p\<close> removes \<open>p\<close> and everything inside it.\<close>

definition rimraf :: "'cfg env \<Rightarrow> filepath \<Rightarrow> unit io" where
  "rimraf env p fs = (Inr (), (\<lambda>q. if q = p \<or> below env p q then None else fs q), [Rimraf p])"

definition console_error :: "string \<Rightarrow> unit io" where
  "console_error s = io_emit (ConsoleError s)"

definition console_log :: "string \<Rightarrow> unit io" where
  "console_log s = io_emit (ConsoleLog s)"

section \<open>The helpers of build (lines 72-88, 109-133, 146-161)\<close>

text \<open>
  \<open>compile\<close>: the callback of \<open>webpack\<close> gets an error or the stats. With errors in the
  stats, each is printed and the promise is rejected with a new \<open>Error\<close>.
\<close>

definition run_webpack :: "'cfg env \<Rightarrow> 'cfg list \<Rightarrow> (string + webpackStats) io" where
  "run_webpack env config fs = (case webpack env config fs of (r, fs') \<Rightarrow> (Inr r, fs', [Webpack]))"

definition compile :: "'cfg env \<Rightarrow> 'cfg list \<Rightarrow> CompileReport io" where
  "compile env config =
     io_bind (run_webpack env config) (\<lambda>r.
       case r of
         Inl err \<Rightarrow> io_throw (WebpackRejected err)
       | Inr stats \<Rightarrow>
           if hasErrors stats
           then io_bind (io_forEach (\<lambda>err. console_error err) (errors (toJson stats)))
                  (\<lambda>_. io_throw (Error ''Failed to compile with errors.''))
           else io_return (toJson stats))"

text \<open>
  \<open>stats.children[0].assets.find(a => re.test(a.name))\<close> and the read of \<open>.name\<close> that
  follows it: a \<open>TypeError\<close> when \<open>children[0]\<close> or the found asset is undefined.
\<close>

definition findChunk :: "(string \<Rightarrow> bool) \<Rightarrow> CompileReport \<Rightarrow> error + asset" where
  "findChunk re stats =
     (case children stats of
        [] \<Rightarrow> Inl (TypeError ''Cannot read property assets of undefined'')
      | c # _ \<Rightarrow>
          (case find (\<lambda>a. re (name a)) (assets c) of
             None \<Rightarrow> Inl (TypeError ''Cannot read property name of undefined'')
           | Some a \<Rightarrow> Inr a))"

definition workaroundEmptyStyleChunk :: "'cfg env \<Rightarrow> filepath \<Rightarrow> CompileReport \<Rightarrow> unit io" where
  "workaroundEmptyStyleChunk env out stats =
     io_bind (io_lift (findChunk styleChunkRE stats)) (\<lambda>styleChunk.
       let styleChunkPath = path_resolve env out (name styleChunk) in
       io_bind (readFile styleChunkPath) (\<lambda>styleChunkContent.
       io_bind (rimraf env styleChunkPath) (\<lambda>_.
       io_bind (io_lift (findChunk appChunkRE stats)) (\<lambda>appChunk.
         let appChunkPath = path_resolve env out (name appChunk) in
         io_bind (readFile appChunkPath) (\<lambda>appChunkContent.
         writeFile appChunkPath (styleChunkContent @ appChunkContent))))))"

text \<open>\<open>pagePath.replace(/^\//, '')\<close> removes one leading slash when there is one.\<close>

definition strip_leading_slash :: "string \<Rightarrow> string" where
  "strip_leading_slash s = (case s of [] \<Rightarrow> [] | c # cs \<Rightarrow> if c = CHR ''/'' then cs else s)"

definition page_filename :: "string \<Rightarrow> string" where
  "page_filename pagePath = (if pagePath = ''/'' then ''index.html'' else strip_leading_slash pagePath)"

definition page_context :: "string \<Rightarrow> Page \<Rightarrow> RenderContext" where
  "page_context uht page =
     \<lparr> url = path page,
       userHeadTags = uht,
       pageMeta = renderPageMeta (case frontmatter page of None \<Rightarrow> None | Some f \<Rightarrow> meta f),
       title = ''VuePress'',
       lang = ''en'' \<rparr>"

text \<open>
  \<open>renderer.renderToString(context)\<close>, with the outcome of the promise as a value; the
  trace keeps the call with its outcome.
\<close>

definition renderToString ::
  "(RenderContext \<Rightarrow> RenderError + string) \<Rightarrow> RenderContext \<Rightarrow> (RenderError + string) io" where
  "renderToString renderer context fs =
     (Inr (renderer context), fs, [RenderToString context (renderer context)])"

definition renderPage ::
  "'cfg env \<Rightarrow> filepath \<Rightarrow> (RenderContext \<Rightarrow> RenderError + string) \<Rightarrow> string \<Rightarrow> Page \<Rightarrow> unit io" where
  "renderPage env out renderer uht page =
     (let pagePath = path page;
          context = page_context uht page
      in io_bind (renderToString renderer context) (\<lambda>r.
           case r of
             Inl e \<Rightarrow>
               io_bind (console_error (chalk_red env (''Error rendering '' @ pagePath @ '':'')))
                 (\<lambda>_. console_error (stack e))
           | Inr html \<Rightarrow>
               (let filename = page_filename pagePath;
                    filePath = path_resolve env out filename
                in io_bind (mkdirp (path_dirname env filePath)) (\<lambda>_. writeFile filePath html))))"

section \<open>build (lines 1-68)\<close>

text \<open>
  \<open>Promise.all (pages.map (renderPage))\<close> starts every page and waits for all of them. The
  pages only meet in the files they write, so the model runs them one after another in the
  order of the list.
\<close>

definition loadManifests :: "'cfg env \<Rightarrow> filepath \<Rightarrow> (string \<times> string) io" where
  "loadManifests env out =
     io_bind (require (path_resolve env out ''manifest/server.json'')) (\<lambda>serverBundle.
     io_bind (require (path_resolve env out ''manifest/client.json'')) (\<lambda>clientManifest.
     io_bind (rimraf env (path_resolve env out ''manifest'')) (\<lambda>_.
     io_return (serverBundle, clientManifest))))"

definition renderUserHeadTags :: "SiteOptions \<Rightarrow> string" where
  "renderUserHeadTags options =
     join ''\<newline>  '' (map renderHeadTag (case head (siteConfig options) of None \<Rightarrow> [] | Some h \<Rightarrow> h))"

definition default404 :: Page where
  "default404 = \<lparr> path = ''/404.html'', frontmatter = None \<rparr>"

definition renderPages ::
  "'cfg env \<Rightarrow> filepath \<Rightarrow> (RenderContext \<Rightarrow> RenderError + string) \<Rightarrow> string \<Rightarrow> Page list \<Rightarrow> unit io" where
  "renderPages env out renderer uht ps =
     io_bind (io_forEach (renderPage env out renderer uht) ps) (\<lambda>_.
       if \<not> list_ex (\<lambda>p. path p = ''/404.html'') ps
       then renderPage env out renderer uht default404
       else io_return ())"

definition success_message :: "'cfg env \<Rightarrow> filepath \<Rightarrow> string" where
  "success_message env out =
     ''\<newline>'' @ chalk_green env ''Success!'' @ '' Generated static files in ''
     @ chalk_cyan env (path_relative env (cwd env) out) @ ''.''"

definition run_prepare :: "'cfg env \<Rightarrow> string \<Rightarrow> SiteOptions io" where
  "run_prepare env sourceDir fs =
     (case prepare env sourceDir fs of
        Inl e \<Rightarrow> (Inl (PrepareRejected e), fs, [])
      | Inr options \<Rightarrow> (Inr options, fs, []))"

definition override_outDir :: "cliOptions \<Rightarrow> SiteOptions \<Rightarrow> SiteOptions" where
  "override_outDir cli options =
     (case cli_outDir cli of
        None \<Rightarrow> options
      | Some d \<Rightarrow> if d \<noteq> [] then options\<lparr>outDir := d\<rparr> else options)"

text \<open>Lines 44-68: the renderer, the head tags of the site, the pages, the final message.\<close>

definition renderSite :: "'cfg env \<Rightarrow> SiteOptions \<Rightarrow> string \<Rightarrow> string \<Rightarrow> unit io" where
  "renderSite env options serverBundle clientManifest =
     (let out = outDir options in
      io_bind (readFile (path_resolve env (module_dirname env) ''app/index.ssr.html'')) (\<lambda>template.
      let renderer = createBundleRenderer env serverBundle clientManifest template;
          uht = renderUserHeadTags options
      in
      io_bind (renderPages env out renderer uht (pages (siteData options))) (\<lambda>_.
      console_log (success_message env out))))"

text \<open>Lines 33-68: what follows a successful compilation.\<close>

definition afterCompile :: "'cfg env \<Rightarrow> SiteOptions \<Rightarrow> CompileReport \<Rightarrow> unit io" where
  "afterCompile env options stats =
     (let out = outDir options in
      io_bind (loadManifests env out) (\<lambda>(serverBundle, clientManifest).
      io_bind (workaroundEmptyStyleChunk env out stats) (\<lambda>_.
      renderSite env options serverBundle clientManifest)))"

definition build :: "'cfg env \<Rightarrow> string \<Rightarrow> cliOptions \<Rightarrow> unit io" where
  "build env sourceDir cli =
     io_bind (io_emit (SetEnv ''NODE_ENV'' ''production'')) (\<lambda>_.
     io_bind (run_prepare env sourceDir) (\<lambda>prepared.
       let options = override_outDir cli prepared;
           out = outDir options
       in
       io_bind (rimraf env out) (\<lambda>_.
       let clientConfig = createClientConfig env options cli;
           serverConfig = createServerConfig env options cli
       in
       io_bind (compile env [clientConfig, serverConfig]) (\<lambda>stats.
       afterCompile env options stats))))"

section \<open>Observations on a trace\<close>

fun writes_of :: "event list \<Rightarrow> (filepath \<times> string) list" where
  "writes_of [] = []"
| "writes_of (WriteFile p c # es) = (p, c) # writes_of es"
| "writes_of (e # es) = writes_of es"

fun renders_of :: "event list \<Rightarrow> (RenderContext \<times> (RenderError + string)) list" where
  "renders_of [] = []"
| "renders_of (RenderToString ctx r # es) = (ctx, r) # renders_of es"
| "renders_of (e # es) = renders_of es"

text \<open>
  What one run of \<open>renderPage\<close> adds to the trace and leaves in the tree, and the pages that
  \<open>renderPages\<close> runs it on; \<open>outputs_of f rs\<close> lists a file \<open>f url\<close> for every render of \<open>rs\<close>
  that returned HTML.
\<close>

definition page_file :: "'cfg env \<Rightarrow> filepath \<Rightarrow> string \<Rightarrow> filepath" where
  "page_file env out pagePath = path_resolve env out (page_filename pagePath)"

definition page_events ::
  "'cfg env \<Rightarrow> filepath \<Rightarrow> (RenderContext \<Rightarrow> RenderError + string) \<Rightarrow> string \<Rightarrow> Page \<Rightarrow> event list" where
  "page_events env out renderer uht page =
     (let context = page_context uht page in
      RenderToString context (renderer context) #
      (case renderer context of
         Inl e \<Rightarrow> [ConsoleError (chalk_red env (''Error rendering '' @ path page @ '':'')),
                   ConsoleError (stack e)]
       | Inr html \<Rightarrow> [Mkdirp (path_dirname env (page_file env out (path page))),
                      WriteFile (page_file env out (path page)) html]))"

definition page_tree ::
  "'cfg env \<Rightarrow> filepath \<Rightarrow> (RenderContext \<Rightarrow> RenderError + string) \<Rightarrow> string \<Rightarrow> filetree \<Rightarrow> Page \<Rightarrow> filetree" where
  "page_tree env out renderer uht fs page =
     (case renderer (page_context uht page) of
        Inl e \<Rightarrow> fs
      | Inr html \<Rightarrow> fs(page_file env out (path page) \<mapsto> html))"

definition pages_to_render :: "Page list \<Rightarrow> Page list" where
  "pages_to_render ps = (if list_ex (\<lambda>p. path p = ''/404.html'') ps then ps else ps @ [default404])"

fun outputs_of ::
  "(string \<Rightarrow> filepath) \<Rightarrow> (RenderContext \<times> (RenderError + string)) list \<Rightarrow> (filepath \<times> string) list" where
  "outputs_of f [] = []"
| "outputs_of f ((ctx, Inr html) # rs) = (f (url ctx), html) # outputs_of f rs"
| "outputs_of f ((ctx, Inl e) # rs) = outputs_of f rs"

definition is_render :: "event \<Rightarrow> bool" where
  "is_render e = (case e of RenderToString ctx r \<Rightarrow> True | _ \<Rightarrow> False)"

text \<open>The HTML files of a build: what it writes from its first render call on.\<close>

definition emitted_html :: "event list \<Rightarrow> (filepath \<times> string) list" where
  "emitted_html evs = writes_of (dropWhile (\<lambda>e. \<not> is_render e) evs)"

section \<open>A site to run the build on\<close>

text \<open>
  An environment with plain POSIX paths below an absolute directory, colours switched off,
  a compiler that emits the two manifests, a style chunk and an app chunk for the client
  target, and a renderer that fails on the page \<open>/broken.html\<close> only.
\<close>

definition ex_client :: TargetResult where
  "ex_client = \<lparr> assets = [\<lparr> name = ''styles.ab12cd34.js'' \<rparr>, \<lparr> name = ''app.ef56gh78.js'' \<rparr>,
                            \<lparr> name = ''manifest/client.json'' \<rparr>] \<rparr>"

definition ex_server :: TargetResult where
  "ex_server = \<lparr> assets = [\<lparr> name = ''manifest/server.json'' \<rparr>] \<rparr>"

definition ex_report :: CompileReport where
  "ex_report = \<lparr> errors = [], children = [ex_client, ex_server] \<rparr>"

definition ex_head :: "HeadTagSpec list" where
  \<open>ex_head = [\<lparr> tag = ''meta'', attrs = Some [(''charset'', ''utf-8'')], innerHTML = None \<rparr>,
              \<lparr> tag = ''script'', attrs = Some [], innerHTML = Some ''1'' \<rparr>]\<close>

definition ex_site :: "HeadTagSpec list option \<Rightarrow> Page list \<Rightarrow> SiteOptions" where
  \<open>ex_site tags ps =
     \<lparr> outDir = ''/site/dist'', siteConfig = \<lparr> head = tags \<rparr>, siteData = \<lparr> pages = ps \<rparr> \<rparr>\<close>

definition ex_renderer :: "string \<Rightarrow> string \<Rightarrow> string \<Rightarrow> RenderContext \<Rightarrow> RenderError + string" where
  "ex_renderer serverBundle clientManifest template context =
     (if url context = ''/broken.html''
      then Inl \<lparr> message = ''boom'', stack = ''Error: boom at render'' \<rparr>
      else Inr (template @ url context))"

definition ex_emitted :: "filetree \<Rightarrow> filetree" where
  "ex_emitted fs =
     fs(''/site/dist/styles.ab12cd34.js'' \<mapsto> ''S'',
        ''/site/dist/app.ef56gh78.js'' \<mapsto> ''A'',
        ''/site/dist/manifest/client.json'' \<mapsto> ''{client}'',
        ''/site/dist/manifest/server.json'' \<mapsto> ''{server}'')"

definition ex_webpack :: "webpackStats \<Rightarrow> unit list \<Rightarrow> filetree \<Rightarrow> (string + webpackStats) \<times> filetree" where
  "ex_webpack st config fs = (Inr st, ex_emitted fs)"

definition ex_env :: "webpackStats \<Rightarrow> SiteOptions \<Rightarrow> unit env" where
  "ex_env st site =
     \<lparr> cwd = ''/site'',
       module_dirname = ''/lib'',
       path_resolve = (\<lambda>d n. d @ ''/'' @ n),
       path_dirname = (\<lambda>p. rev (tl (dropWhile (\<lambda>c. c \<noteq> CHR ''/'') (rev p)))),
       path_relative = (\<lambda>d p. drop (length d + 1) p),
       below = (\<lambda>d q. strict_prefix (d @ ''/'') q),
       chalk_red = (\<lambda>s. s),
       chalk_green = (\<lambda>s. s),
       chalk_cyan = (\<lambda>s. s),
       prepare = (\<lambda>sourceDir fs. Inr site),
       createClientConfig = (\<lambda>options cli. ()),
       createServerConfig = (\<lambda>options cli. ()),
       webpack = ex_webpack st,
       createBundleRenderer = ex_renderer \<rparr>"

definition ex_tree :: filetree where
  "ex_tree = [''/lib/app/index.ssr.html'' \<mapsto> ''<html>'', ''/site/dist/old.html'' \<mapsto> ''stale'']"

definition ex_ok :: webpackStats where
  "ex_ok = \<lparr> hasErrors = False, toJson = ex_report \<rparr>"

definition ex_failed :: webpackStats where
  "ex_failed = \<lparr> hasErrors = True,
                 toJson = \<lparr> errors = [''(client) Module not found'', ''(server) Syntax error''],
                            children = [\<lparr> assets = [] \<rparr>, \<lparr> assets = [] \<rparr>] \<rparr> \<rparr>"

definition ex_pages_ok :: "Page list" where
  "ex_pages_ok = [\<lparr> path = ''/'', frontmatter = None \<rparr>,
                  \<lparr> path = ''/foo/bar.html'', frontmatter = None \<rparr>]"



definition ex_pages :: "Page list" where
  \<open>ex_pages =
     [\<lparr> path = ''/'', frontmatter = None \<rparr>,
      \<lparr> path = ''/broken.html'', frontmatter = None \<rparr>,
      \<lparr> path = ''/foo/bar.html'',
        frontmatter = Some \<lparr> meta = Some [[(''name'', ''description''), (''content'', ''x'')]] \<rparr> \<rparr>]\<close>

section \<open>Properties of the head-tag renderer\<close>

lemma js_get_distinct:
  "distinct (map fst m) \<Longrightarrow> (k, v) \<in> set m \<Longrightarrow> js_get m k = v"
  by (simp add: js_get_def)

lemma pairs_of_keys:
  assumes "distinct (map fst m)"
  shows "map (\<lambda>name. f name (js_get m name)) (Object_keys m) = map (\<lambda>p. f (fst p) (snd p)) m"
  unfolding Object_keys_def map_map
proof (rule map_cong [OF refl])
  fix p assume "p \<in> set m"
  then have "js_get m (fst p) = snd p"
    using assms js_get_distinct [of m "fst p" "snd p"] by simp
  then show "((\<lambda>name. f name (js_get m name)) \<circ> fst) p = f (fst p) (snd p)"
    by simp
qed



lemma join_empty_sep: "join [] xs = concat xs"
  by (induction "[] :: string" xs rule: join.induct) simp_all

lemma fold_append_keys:
  "fold (\<lambda>key res. res @ g key) ks acc = acc @ concat (map g ks)"
  by (induction ks arbitrary: acc) simp_all

lemma metaTag_spec:
  assumes "distinct (map fst m)"
  shows "fold (\<lambda>key res. res @ '' '' @ key @ [CHR ''='', CHR 0x22] @ js_get m key @ [CHR 0x22])
           (Object_keys m) ''<meta'' @ ''>'' = spec_metaTag m"
proof -
  have "map (\<lambda>key. '' '' @ key @ [CHR ''='', CHR 0x22] @ js_get m key @ [CHR 0x22]) (Object_keys m)
        = map (\<lambda>p. '' '' @ spec_pair p) m"
    using pairs_of_keys [OF assms, of "\<lambda>n v. '' '' @ n @ [CHR ''='', CHR 0x22] @ v @ [CHR 0x22]"]
    by (simp add: spec_pair_def)
  then show ?thesis
    using fold_append_keys [of "\<lambda>key. '' '' @ key @ [CHR ''='', CHR 0x22] @ js_get m key @ [CHR 0x22]"
        "Object_keys m" "''<meta''"]
    by (simp add: spec_metaTag_def)
qed

section \<open>The chunk patterns\<close>

text \<open>
  A name passes a chunk test when it ends in the literal, eight word characters and \<open>.js\<close>;
  what stands before the literal is free.
\<close>

lemma chunk_here_iff:
  "chunk_here lit t \<longleftrightarrow>
     (\<exists>w. t = lit @ w @ ''.js'' \<and> length w = 8 \<and> list_all is_word w)"
proof
  assume h: "chunk_here lit t"
  let ?r = "drop (length lit) t"
  from h have a: "take (length lit) t = lit" "length ?r = 11" "list_all is_word (take 8 ?r)"
    "drop 8 ?r = ''.js''"
    by (simp_all add: chunk_here_def Let_def)
  have "t = take (length lit) t @ ?r" "?r = take 8 ?r @ drop 8 ?r"
    by (simp_all only: append_take_drop_id)
  then have "t = take (length lit) t @ (take 8 ?r @ drop 8 ?r)"
    by metis
  with a have "t = lit @ take 8 ?r @ ''.js''" "length (take 8 ?r) = 8"
    by simp_all
  with a(3) show "\<exists>w. t = lit @ w @ ''.js'' \<and> length w = 8 \<and> list_all is_word w"
    by blast
next
  assume "\<exists>w. t = lit @ w @ ''.js'' \<and> length w = 8 \<and> list_all is_word w"
  then show "chunk_here lit t"
    by (auto simp: chunk_here_def Let_def)
qed

lemma chunk_test_iff:
  "chunk_test lit s \<longleftrightarrow>
     (\<exists>pre w. s = pre @ lit @ w @ ''.js'' \<and> length w = 8 \<and> list_all is_word w)"
proof -
  have "chunk_test lit s \<longleftrightarrow> (\<exists>t. suffix t s \<and> chunk_here lit t)"
    by (auto simp: chunk_test_def list_ex_iff)
  also have "\<dots> \<longleftrightarrow> (\<exists>pre t. s = pre @ t \<and> chunk_here lit t)"
    by (auto simp: suffix_def)
  also have "\<dots> \<longleftrightarrow> (\<exists>pre w. s = pre @ lit @ w @ ''.js'' \<and> length w = 8 \<and> list_all is_word w)"
    unfolding chunk_here_iff by blast
  finally show ?thesis .
qed

section \<open>The steps of the build as equations\<close>

lemma renderPage_eq:
  "renderPage env out renderer uht page fs =
     (Inr (), page_tree env out renderer uht fs page, page_events env out renderer uht page)"
  by (simp add: renderPage_def page_tree_def page_events_def renderToString_def io_bind_def
      console_error_def io_emit_def mkdirp_def writeFile_def page_file_def Let_def
      split: sum.splits)

text \<open>A failed render leaves the tree as it was and costs two lines on \<open>console.error\<close>.\<close>

lemma renderPage_failure:
  assumes "renderer (page_context uht page) = Inl e"
  shows "renderPage env out renderer uht page fs =
           (Inr (), fs,
            [RenderToString (page_context uht page) (Inl e),
             ConsoleError (chalk_red env (''Error rendering '' @ path page @ '':'')),
             ConsoleError (stack e)])"
  using assms by (simp add: renderPage_eq page_tree_def page_events_def Let_def)

lemma forEach_renderPage:
  "io_forEach (renderPage env out renderer uht) ps fs =
     (Inr (), foldl (page_tree env out renderer uht) fs ps,
      concat (map (page_events env out renderer uht) ps))"
  by (induction ps arbitrary: fs) (simp_all add: io_return_def io_bind_def renderPage_eq)

lemma renderPages_eq:
  "renderPages env out renderer uht ps fs =
     (Inr (), foldl (page_tree env out renderer uht) fs (pages_to_render ps),
      concat (map (page_events env out renderer uht) (pages_to_render ps)))"
  by (simp add: renderPages_def pages_to_render_def io_bind_def forEach_renderPage renderPage_eq
      io_return_def)

lemma renderSite_eq:
  "renderSite env options sb cm fs =
     (case fs (path_resolve env (module_dirname env) ''app/index.ssr.html'') of
        None \<Rightarrow> (Inl (ENOENT (path_resolve env (module_dirname env) ''app/index.ssr.html'')), fs, [])
      | Some tpl \<Rightarrow>
          (Inr (),
           foldl (page_tree env (outDir options) (createBundleRenderer env sb cm tpl)
                    (renderUserHeadTags options)) fs (pages_to_render (pages (siteData options))),
           ReadFile (path_resolve env (module_dirname env) ''app/index.ssr.html'') #
           concat (map (page_events env (outDir options) (createBundleRenderer env sb cm tpl)
                    (renderUserHeadTags options)) (pages_to_render (pages (siteData options))))
           @ [ConsoleLog (success_message env (outDir options))]))"
  by (simp add: renderSite_def Let_def io_bind_def readFile_def renderPages_eq console_log_def
      io_emit_def split: option.splits)

lemma loadManifests_eq:
  "loadManifests env out fs =
     (case fs (path_resolve env out ''manifest/server.json'') of
        None \<Rightarrow> (Inl (ModuleNotFound (path_resolve env out ''manifest/server.json'')), fs, [])
      | Some sb \<Rightarrow>
          (case fs (path_resolve env out ''manifest/client.json'') of
             None \<Rightarrow> (Inl (ModuleNotFound (path_resolve env out ''manifest/client.json'')), fs,
                       [Require (path_resolve env out ''manifest/server.json'')])
           | Some cm \<Rightarrow>
               (Inr (sb, cm),
                (\<lambda>q. if q = path_resolve env out ''manifest'' \<or> below env (path_resolve env out ''manifest'') q
                      then None else fs q),
                [Require (path_resolve env out ''manifest/server.json''),
                 Require (path_resolve env out ''manifest/client.json''),
                 Rimraf (path_resolve env out ''manifest'')])))"
  by (simp add: loadManifests_def io_bind_def require_def rimraf_def io_return_def
      split: option.splits)

lemma forEach_console_error:
  "io_forEach (\<lambda>err. console_error err) errs fs = (Inr (), fs, map ConsoleError errs)"
  by (induction errs) (simp_all add: io_return_def io_bind_def console_error_def io_emit_def)

lemma compile_eq:
  "compile env config fs =
     (case webpack env config fs of
        (Inl err, fs1) \<Rightarrow> (Inl (WebpackRejected err), fs1, [Webpack])
      | (Inr stats, fs1) \<Rightarrow>
          if hasErrors stats
          then (Inl (Error ''Failed to compile with errors.''), fs1,
                Webpack # map ConsoleError (errors (toJson stats)))
          else (Inr (toJson stats), fs1, [Webpack]))"
  by (simp add: compile_def io_bind_def run_webpack_def io_throw_def io_return_def
      forEach_console_error split: prod.splits sum.splits)

lemma workaround_eq:
  "workaroundEmptyStyleChunk env out stats fs =
     (case findChunk styleChunkRE stats of
        Inl e \<Rightarrow> (Inl e, fs, [])
      | Inr sc \<Rightarrow>
          (case fs (path_resolve env out (name sc)) of
             None \<Rightarrow> (Inl (ENOENT (path_resolve env out (name sc))), fs, [])
           | Some S \<Rightarrow>
               (case findChunk appChunkRE stats of
                  Inl e \<Rightarrow>
                    (Inl e, fst (snd (rimraf env (path_resolve env out (name sc)) fs)),
                     [ReadFile (path_resolve env out (name sc)), Rimraf (path_resolve env out (name sc))])
                | Inr ac \<Rightarrow>
                    (case fst (snd (rimraf env (path_resolve env out (name sc)) fs))
                            (path_resolve env out (name ac)) of
                       None \<Rightarrow>
                         (Inl (ENOENT (path_resolve env out (name ac))),
                          fst (snd (rimraf env (path_resolve env out (name sc)) fs)),
                          [ReadFile (path_resolve env out (name sc)),
                           Rimraf (path_resolve env out (name sc))])
                     | Some A \<Rightarrow>
                         (Inr (),
                          (fst (snd (rimraf env (path_resolve env out (name sc)) fs)))
                            (path_resolve env out (name ac) \<mapsto> S @ A),
                          [ReadFile (path_resolve env out (name sc)),
                           Rimraf (path_resolve env out (name sc)),
                           ReadFile (path_resolve env out (name ac)),
                           WriteFile (path_resolve env out (name ac)) (S @ A)])))))"
  by (simp add: workaroundEmptyStyleChunk_def io_bind_def io_lift_def io_throw_def io_return_def
      readFile_def rimraf_def writeFile_def Let_def split: sum.splits option.splits)

lemma afterCompile_eq:
  "afterCompile env options stats fs =
     (case loadManifests env (outDir options) fs of
        (Inl e, fs1, evs1) \<Rightarrow> (Inl e, fs1, evs1)
      | (Inr (sb, cm), fs1, evs1) \<Rightarrow>
          (case workaroundEmptyStyleChunk env (outDir options) stats fs1 of
             (Inl e, fs2, evs2) \<Rightarrow> (Inl e, fs2, evs1 @ evs2)
           | (Inr u, fs2, evs2) \<Rightarrow>
               (case renderSite env options sb cm fs2 of
                  (r, fs3, evs3) \<Rightarrow> (r, fs3, evs1 @ evs2 @ evs3))))"
  by (simp add: afterCompile_def Let_def io_bind_def split: prod.splits sum.splits)

lemma build_eq:
  assumes "prepare env sourceDir fs = Inr prepared"
  shows "build env sourceDir cli fs =
     (let options = override_outDir cli prepared;
          out = outDir options
      in case compile env [createClientConfig env options cli, createServerConfig env options cli]
                (fst (snd (rimraf env out fs))) of
           (Inl e, fs1, evs1) \<Rightarrow>
             (Inl e, fs1, SetEnv ''NODE_ENV'' ''production'' # Rimraf out # evs1)
         | (Inr stats, fs1, evs1) \<Rightarrow>
             (case afterCompile env options stats fs1 of
                (r, fs2, evs2) \<Rightarrow>
                  (r, fs2, SetEnv ''NODE_ENV'' ''production'' # Rimraf out # evs1 @ evs2)))"
  using assms
  by (simp add: build_def Let_def io_bind_def io_emit_def run_prepare_def rimraf_def
      split: prod.splits sum.splits)

text \<open>When \<open>prepare\<close> rejects, nothing has been touched.\<close>

lemma build_prepare_failed:
  assumes "prepare env sourceDir fs = Inl e"
  shows "build env sourceDir cli fs = (Inl (PrepareRejected e), fs, [SetEnv ''NODE_ENV'' ''production''])"
  using assms by (simp add: build_def io_bind_def io_emit_def run_prepare_def)


section \<open>What a trace shows\<close>

lemma renders_of_append: "renders_of (xs @ ys) = renders_of xs @ renders_of ys"
  by (induction xs rule: renders_of.induct) simp_all

lemma writes_of_append: "writes_of (xs @ ys) = writes_of xs @ writes_of ys"
  by (induction xs rule: writes_of.induct) simp_all

lemma outputs_of_append: "outputs_of f (xs @ ys) = outputs_of f xs @ outputs_of f ys"
  by (induction f xs rule: outputs_of.induct) simp_all

lemma renders_of_page_events:
  "renders_of (page_events env out renderer uht p)
     = [(page_context uht p, renderer (page_context uht p))]"
  by (simp add: page_events_def Let_def split: sum.splits)

lemma writes_of_page_events:
  "writes_of (page_events env out renderer uht p)
     = outputs_of (page_file env out) [(page_context uht p, renderer (page_context uht p))]"
  by (simp add: page_events_def Let_def page_context_def split: sum.splits)

lemma renders_of_pages:
  "renders_of (concat (map (page_events env out renderer uht) ps))
     = map (\<lambda>p. (page_context uht p, renderer (page_context uht p))) ps"
  by (induction ps) (simp_all add: renders_of_append renders_of_page_events)

lemma outputs_of_Cons:
  "outputs_of f (x # xs) = outputs_of f [x] @ outputs_of f xs"
  using outputs_of_append [of f "[x]" xs] by simp

lemma writes_of_pages:
  "writes_of (concat (map (page_events env out renderer uht) ps))
     = outputs_of (page_file env out)
         (map (\<lambda>p. (page_context uht p, renderer (page_context uht p))) ps)"
proof (induction ps)
  case Nil
  then show ?case by simp
next
  case (Cons p ps)
  then show ?case
    by (simp only: list.map concat.simps writes_of_append writes_of_page_events
        outputs_of_Cons [of _ _ "map (\<lambda>p. (page_context uht p, renderer (page_context uht p))) ps"])
qed

lemma dropWhile_no_render:
  "renders_of pre = [] \<Longrightarrow>
   dropWhile (\<lambda>e. \<not> is_render e) (pre @ rest) = dropWhile (\<lambda>e. \<not> is_render e) rest"
  by (induction pre rule: renders_of.induct) (simp_all add: is_render_def)

lemma emitted_html_no_render: "renders_of evs = [] \<Longrightarrow> emitted_html evs = []"
proof -
  assume "renders_of evs = []"
  then have "dropWhile (\<lambda>e. \<not> is_render e) (evs @ []) = dropWhile (\<lambda>e. \<not> is_render e) []"
    by (rule dropWhile_no_render)
  then have "dropWhile (\<lambda>e. \<not> is_render e) evs = []"
    by (simp del: dropWhile_eq_Nil_conv)
  then show ?thesis
    by (simp only: emitted_html_def writes_of.simps)
qed

lemma dropWhile_pages:
  "writes_of (dropWhile (\<lambda>e. \<not> is_render e)
      (concat (map (page_events env out renderer uht) ps) @ [ConsoleLog m]))
   = writes_of (concat (map (page_events env out renderer uht) ps))"
  by (cases ps) (simp_all add: is_render_def page_events_def Let_def writes_of_append)

lemma emitted_html_pages:
  "renders_of pre = [] \<Longrightarrow>
   emitted_html (pre @ concat (map (page_events env out renderer uht) ps) @ [ConsoleLog m])
     = writes_of (concat (map (page_events env out renderer uht) ps))"
  by (simp add: emitted_html_def dropWhile_no_render dropWhile_pages)

lemma workaround_no_render:
  "renders_of (snd (snd (workaroundEmptyStyleChunk env out stats fs))) = []"
  by (simp add: workaround_eq split: sum.splits option.splits)

lemma loadManifests_no_render:
  "renders_of (snd (snd (loadManifests env out fs))) = []"
  by (simp add: loadManifests_eq split: option.splits)

lemma page_tree_keeps:
  "fs q \<noteq> None \<Longrightarrow> foldl (page_tree env out renderer uht) fs ps q \<noteq> None"
proof (induction ps arbitrary: fs)
  case Nil
  then show ?case by simp
next
  case (Cons p ps)
  from Cons.prems have "page_tree env out renderer uht fs p q \<noteq> None"
    by (simp add: page_tree_def split: sum.splits)
  with Cons.IH [of "page_tree env out renderer uht fs p"] show ?case by simp
qed

lemma page_tree_holds_writes:
  "(q, c) \<in> set (writes_of (concat (map (page_events env out renderer uht) ps))) \<Longrightarrow>
   foldl (page_tree env out renderer uht) fs ps q \<noteq> None"
proof (induction ps arbitrary: fs)
  case Nil
  then show ?case by simp
next
  case (Cons p ps)
  from Cons.prems consider
    (here) "(q, c) \<in> set (writes_of (page_events env out renderer uht p))"
    | (later) "(q, c) \<in> set (writes_of (concat (map (page_events env out renderer uht) ps)))"
    by (auto simp: writes_of_append)
  then show ?case
  proof cases
    case here
    then have "page_tree env out renderer uht fs p q \<noteq> None"
      by (auto simp: page_events_def page_tree_def Let_def split: sum.splits)
    with page_tree_keeps [of "page_tree env out renderer uht fs p" q env out renderer uht ps]
    show ?thesis by simp
  next
    case later
    with Cons.IH [of "page_tree env out renderer uht fs p"] show ?thesis by simp
  qed
qed

lemma afterCompile_shape:
  assumes "afterCompile env options stats fs = (r, fs', evs)"
  shows "(\<exists>e. r = Inl e \<and> renders_of evs = [] \<and> emitted_html evs = []) \<or>
         (\<exists>pre renderer fs2. r = Inr () \<and> renders_of pre = [] \<and>
            evs = pre @ concat (map (page_events env (outDir options) renderer
                                       (renderUserHeadTags options))
                                  (pages_to_render (pages (siteData options))))
                  @ [ConsoleLog (success_message env (outDir options))] \<and>
            fs' = foldl (page_tree env (outDir options) renderer (renderUserHeadTags options)) fs2
                    (pages_to_render (pages (siteData options))))"
proof -
  obtain r1 fs1 evs1 where l: "loadManifests env (outDir options) fs = (r1, fs1, evs1)"
    by (metis prod_cases3)
  have n1: "renders_of evs1 = []"
    using loadManifests_no_render [of env "outDir options" fs] l by simp
  show ?thesis
  proof (cases r1)
    case (Inl e)
    with assms l n1 show ?thesis
      by (auto simp: afterCompile_eq emitted_html_no_render)
  next
    case (Inr m)
    obtain sb cm where m: "m = (sb, cm)" by (cases m)
    obtain r2 fs2 evs2 where w: "workaroundEmptyStyleChunk env (outDir options) stats fs1 = (r2, fs2, evs2)"
      by (metis prod_cases3)
    have n2: "renders_of evs2 = []"
      using workaround_no_render [of env "outDir options" stats fs1] w by simp
    show ?thesis
    proof (cases r2)
      case (Inl e)
      with assms l Inr m w n1 n2 show ?thesis
        by (auto simp: afterCompile_eq renders_of_append emitted_html_no_render)
    next
      case u: (Inr u)
      show ?thesis
      proof (cases "fs2 (path_resolve env (module_dirname env) ''app/index.ssr.html'')")
        case None
        with assms l Inr m w u n1 n2 show ?thesis
          by (auto simp: afterCompile_eq renderSite_eq renders_of_append emitted_html_no_render)
      next
        case (Some tpl)
        with assms l Inr m w u have
          "r = Inr ()"
          "evs = (evs1 @ evs2 @ [ReadFile (path_resolve env (module_dirname env) ''app/index.ssr.html'')])
                 @ concat (map (page_events env (outDir options) (createBundleRenderer env sb cm tpl)
                                  (renderUserHeadTags options))
                             (pages_to_render (pages (siteData options))))
                 @ [ConsoleLog (success_message env (outDir options))]"
          "fs' = foldl (page_tree env (outDir options) (createBundleRenderer env sb cm tpl)
                          (renderUserHeadTags options)) fs2
                   (pages_to_render (pages (siteData options)))"
          by (auto simp: afterCompile_eq renderSite_eq)
        moreover have "renders_of (evs1 @ evs2 @ [ReadFile (path_resolve env (module_dirname env) ''app/index.ssr.html'')]) = []"
          using n1 n2 by (simp add: renders_of_append)
        ultimately show ?thesis by blast
      qed
    qed
  qed
qed

lemma renders_of_console: "renders_of (map ConsoleError errs) = []"
  by (induction errs) simp_all

lemma compile_no_render: "renders_of (snd (snd (compile env config fs))) = []"
  by (simp add: compile_eq renders_of_console split: prod.splits sum.splits)

lemma build_shape:
  assumes "build env sourceDir cli fs = (r, fs', evs)"
    and "prepare env sourceDir fs = Inr prepared"
    and "options = override_outDir cli prepared"
  shows "(\<exists>e. r = Inl e \<and> renders_of evs = [] \<and> emitted_html evs = []) \<or>
         (\<exists>pre renderer fs2. r = Inr () \<and> renders_of pre = [] \<and>
            evs = pre @ concat (map (page_events env (outDir options) renderer
                                       (renderUserHeadTags options))
                                  (pages_to_render (pages (siteData options))))
                  @ [ConsoleLog (success_message env (outDir options))] \<and>
            fs' = foldl (page_tree env (outDir options) renderer (renderUserHeadTags options)) fs2
                    (pages_to_render (pages (siteData options))))"
proof -
  let ?cfg = "[createClientConfig env options cli, createServerConfig env options cli]"
  let ?fs0 = "fst (snd (rimraf env (outDir options) fs))"
  let ?hd = "[SetEnv ''NODE_ENV'' ''production'', Rimraf (outDir options)]"
  obtain r1 fs1 evs1 where c: "compile env ?cfg ?fs0 = (r1, fs1, evs1)"
    by (metis prod_cases3)
  have n1: "renders_of evs1 = []"
    using compile_no_render [of env ?cfg ?fs0] c by simp
  show ?thesis
  proof (cases r1)
    case (Inl e)
    with assms c have "r = Inl e" "evs = ?hd @ evs1"
      by (simp_all add: build_eq Let_def)
    moreover from this n1 have "renders_of evs = []"
      by (simp add: renders_of_append)
    ultimately show ?thesis
      by (simp add: emitted_html_no_render)
  next
    case (Inr stats)
    obtain r2 fs2 evs2 where a: "afterCompile env options stats fs1 = (r2, fs2, evs2)"
      by (metis prod_cases3)
    with assms c Inr have e: "r = r2" "evs = (?hd @ evs1) @ evs2" "fs' = fs2"
      by (simp_all add: build_eq Let_def)
    have n0: "renders_of (?hd @ evs1) = []"
      using n1 by (simp add: renders_of_append)
    from afterCompile_shape [OF a] show ?thesis
    proof (elim disjE exE conjE)
      fix e' assume "r2 = Inl e'" "renders_of evs2 = []" "emitted_html evs2 = []"
      with e n0 have "r = Inl e'" "renders_of evs = []"
        by (simp_all add: renders_of_append)
      then show ?thesis
        by (simp add: emitted_html_no_render)
    next
      fix pre renderer fs3
      assume p: "r2 = Inr ()" "renders_of pre = []"
        "evs2 = pre @ concat (map (page_events env (outDir options) renderer
                                       (renderUserHeadTags options))
                                  (pages_to_render (pages (siteData options))))
                  @ [ConsoleLog (success_message env (outDir options))]"
        "fs2 = foldl (page_tree env (outDir options) renderer (renderUserHeadTags options)) fs3
                    (pages_to_render (pages (siteData options)))"
      have "renders_of ((?hd @ evs1) @ pre) = []"
        using n0 p(2) renders_of_append [of "?hd @ evs1" pre] by simp
      moreover have "evs = ((?hd @ evs1) @ pre) @ concat (map (page_events env (outDir options) renderer
                                       (renderUserHeadTags options))
                                  (pages_to_render (pages (siteData options))))
                  @ [ConsoleLog (success_message env (outDir options))]"
        using e(2) p(3) by simp
      ultimately show ?thesis
        using e(1,3) p(1,4) by blast
    qed
  qed
qed

text \<open>What a build that renders anything has done.\<close>

lemma build_rendering:
  assumes "build env sourceDir cli fs = (r, fs', evs)"
    and "prepare env sourceDir fs = Inr prepared"
    and "options = override_outDir cli prepared"
    and "r = Inr () \<or> renders_of evs \<noteq> []"
  shows "\<exists>pre renderer. r = Inr () \<and> renders_of pre = [] \<and>
            evs = pre @ concat (map (page_events env (outDir options) renderer
                                       (renderUserHeadTags options))
                                  (pages_to_render (pages (siteData options))))
                  @ [ConsoleLog (success_message env (outDir options))] \<and>
            renders_of evs = map (\<lambda>p. (page_context (renderUserHeadTags options) p,
                                         renderer (page_context (renderUserHeadTags options) p)))
                               (pages_to_render (pages (siteData options))) \<and>
            emitted_html evs = outputs_of (page_file env (outDir options)) (renders_of evs) \<and>
            (\<forall>x \<in> set (emitted_html evs). fs' (fst x) \<noteq> None)"
proof -
  from build_shape [OF assms(1-3)] assms(4)
  obtain pre renderer fs2 where p: "r = Inr ()" "renders_of pre = []"
    "evs = pre @ concat (map (page_events env (outDir options) renderer
                                       (renderUserHeadTags options))
                                  (pages_to_render (pages (siteData options))))
                  @ [ConsoleLog (success_message env (outDir options))]"
    "fs' = foldl (page_tree env (outDir options) renderer (renderUserHeadTags options)) fs2
                    (pages_to_render (pages (siteData options)))"
    by auto
  have r: "renders_of evs = map (\<lambda>p. (page_context (renderUserHeadTags options) p,
                                         renderer (page_context (renderUserHeadTags options) p)))
                               (pages_to_render (pages (siteData options)))"
    using p(2) by (simp add: p(3) renders_of_append renders_of_pages)
  have w: "emitted_html evs = writes_of (concat (map (page_events env (outDir options) renderer
                                       (renderUserHeadTags options))
                                  (pages_to_render (pages (siteData options)))))"
    using p(2) by (simp add: p(3) emitted_html_pages)
  have "emitted_html evs = outputs_of (page_file env (outDir options)) (renders_of evs)"
    unfolding r w by (simp add: writes_of_pages)
  moreover have "\<forall>x \<in> set (emitted_html evs). fs' (fst x) \<noteq> None"
    unfolding w p(4) using page_tree_holds_writes by fastforce
  ultimately show ?thesis
    using p r by blast
qed

lemma override_keeps_site:
  "siteConfig (override_outDir cli prepared) = siteConfig prepared"
  "siteData (override_outDir cli prepared) = siteData prepared"
  "renderUserHeadTags (override_outDir cli prepared) = renderUserHeadTags prepared"
  by (simp_all add: override_outDir_def renderUserHeadTags_def split: option.splits)




section \<open>Which files a build leaves\<close>






section \<open>The build of the example site\<close>

lemma ex_prepare: "prepare (ex_env st site) src fs = Inr site"
  by (simp add: ex_env_def)

lemma ex_site_fields:
  "outDir (ex_site tags ps) = ''/site/dist''"
  "head (siteConfig (ex_site tags ps)) = tags"
  "pages (siteData (ex_site tags ps)) = ps"
  by (simp_all add: ex_site_def)

lemma ex_style: "styleChunkRE ''styles.ab12cd34.js''" "\<not> styleChunkRE ''app.ef56gh78.js''"
  "\<not> styleChunkRE ''manifest/client.json''" "\<not> styleChunkRE ''manifest/server.json''"
  by code_simp+

lemma ex_app: "\<not> appChunkRE ''styles.ab12cd34.js''" "appChunkRE ''app.ef56gh78.js''"
  "\<not> appChunkRE ''manifest/client.json''" "\<not> appChunkRE ''manifest/server.json''"
  by code_simp+

lemma ex_override: "override_outDir \<lparr> cli_outDir = None \<rparr> site = site"
  by (simp add: override_outDir_def)

lemma ex_env_fields:
  "cwd (ex_env st site) = ''/site''"
  "module_dirname (ex_env st site) = ''/lib''"
  "path_resolve (ex_env st site) d n = d @ ''/'' @ n"
  "path_dirname (ex_env st site) p = rev (tl (dropWhile (\<lambda>c. c \<noteq> CHR ''/'') (rev p)))"
  "path_relative (ex_env st site) d p = drop (length d + 1) p"
  "below (ex_env st site) d q = strict_prefix (d @ ''/'') q"
  "chalk_red (ex_env st site) s = s"
  "chalk_green (ex_env st site) s = s"
  "chalk_cyan (ex_env st site) s = s"
  "createClientConfig (ex_env st site) options cli = ()"
  "createServerConfig (ex_env st site) options cli = ()"
  "webpack (ex_env st site) config fs = (Inr st, ex_emitted fs)"
  "createBundleRenderer (ex_env st site) = ex_renderer"
  by (simp_all add: ex_env_def ex_webpack_def)

lemma ex_chunks:
  "findChunk styleChunkRE ex_report = Inr \<lparr> name = ''styles.ab12cd34.js'' \<rparr>"
  "findChunk appChunkRE ex_report = Inr \<lparr> name = ''app.ef56gh78.js'' \<rparr>"
  by (simp_all add: findChunk_def ex_report_def ex_client_def ex_style ex_app)

lemma ex_build:
  "build (ex_env ex_ok (ex_site tags ps)) src \<lparr> cli_outDir = None \<rparr> ex_tree =
     (Inr (),
      fst (snd (build (ex_env ex_ok (ex_site tags ps)) src \<lparr> cli_outDir = None \<rparr> ex_tree)),
      [SetEnv ''NODE_ENV'' ''production'', Rimraf ''/site/dist'', Webpack,
       Require ''/site/dist/manifest/server.json'', Require ''/site/dist/manifest/client.json'',
       Rimraf ''/site/dist/manifest'',
       ReadFile ''/site/dist/styles.ab12cd34.js'', Rimraf ''/site/dist/styles.ab12cd34.js'',
       ReadFile ''/site/dist/app.ef56gh78.js'', WriteFile ''/site/dist/app.ef56gh78.js'' ''SA'',
       ReadFile ''/lib/app/index.ssr.html'']
      @ concat (map (page_events (ex_env ex_ok (ex_site tags ps)) ''/site/dist''
                       (ex_renderer ''{server}'' ''{client}'' ''<html>'')
                       (renderUserHeadTags (ex_site tags ps)))
                  (pages_to_render ps))
      @ [ConsoleLog ''\<newline>Success! Generated static files in dist.''])"
  by (simp add: build_eq [OF ex_prepare] ex_override compile_eq afterCompile_eq loadManifests_eq
      workaround_eq renderSite_eq Let_def ex_chunks rimraf_def ex_env_fields
      ex_site_def ex_ok_def ex_emitted_def ex_tree_def success_message_def)

lemma ex_build_result:
  "fst (build (ex_env ex_ok (ex_site tags ps)) src \<lparr> cli_outDir = None \<rparr> ex_tree) = Inr ()"
  using arg_cong [OF ex_build [of tags ps src], of fst] by simp

lemma ex_build_events:
  "snd (snd (build (ex_env ex_ok (ex_site tags ps)) src \<lparr> cli_outDir = None \<rparr> ex_tree)) =
      [SetEnv ''NODE_ENV'' ''production'', Rimraf ''/site/dist'', Webpack,
       Require ''/site/dist/manifest/server.json'', Require ''/site/dist/manifest/client.json'',
       Rimraf ''/site/dist/manifest'',
       ReadFile ''/site/dist/styles.ab12cd34.js'', Rimraf ''/site/dist/styles.ab12cd34.js'',
       ReadFile ''/site/dist/app.ef56gh78.js'', WriteFile ''/site/dist/app.ef56gh78.js'' ''SA'',
       ReadFile ''/lib/app/index.ssr.html'']
      @ concat (map (page_events (ex_env ex_ok (ex_site tags ps)) ''/site/dist''
                       (ex_renderer ''{server}'' ''{client}'' ''<html>'')
                       (renderUserHeadTags (ex_site tags ps)))
                  (pages_to_render ps))
      @ [ConsoleLog ''\<newline>Success! Generated static files in dist.'']"
  using arg_cong [OF ex_build [of tags ps src], of "\<lambda>x. snd (snd x)"] by simp

lemma ex_build_run:
  "build (ex_env ex_ok (ex_site tags ps)) src \<lparr> cli_outDir = None \<rparr> ex_tree =
     (Inr (),
      fst (snd (build (ex_env ex_ok (ex_site tags ps)) src \<lparr> cli_outDir = None \<rparr> ex_tree)),
      snd (snd (build (ex_env ex_ok (ex_site tags ps)) src \<lparr> cli_outDir = None \<rparr> ex_tree)))"
  using ex_build_result [of tags ps src]
  by (metis prod.collapse)

lemma ex_renders:
  "renders_of (snd (snd (build (ex_env ex_ok (ex_site tags ps)) src \<lparr> cli_outDir = None \<rparr> ex_tree)))
     = map (\<lambda>p. (page_context (renderUserHeadTags (ex_site tags ps)) p,
                  ex_renderer ''{server}'' ''{client}'' ''<html>''
                    (page_context (renderUserHeadTags (ex_site tags ps)) p)))
         (pages_to_render ps)"
  by (simp add: ex_build_events renders_of_append renders_of_pages)

lemma ex_uht:
  \<open>renderUserHeadTags (ex_site (Some ex_head) ps) = ''<meta charset="utf-8">\<newline>  <script>1</script>''\<close>
  "renderUserHeadTags (ex_site None ps) = []"
  by (simp_all add: renderUserHeadTags_def ex_site_def ex_head_def renderHeadTag_def renderAttrs_def
      Object_keys_def js_get_def needsClosing_def)




section \<open>The format of head tags and meta tags\<close>



text \<open>
  C9. \<open>renderPageMeta\<close> of an absent sequence is the empty string; of a sequence of attribute
  mappings it is the concatenation, with no separator and in the order of the sequence, of
  one \<open><meta name="value" ...>\<close> string per mapping, each with the pairs of the mapping in
  iteration order, not escaped and with no closing tag.
\<close>

theorem renderPageMeta_format:
  "renderPageMeta None = []
   \<and> ((\<forall>m \<in> set ms. distinct (map fst m)) \<longrightarrow>
        renderPageMeta (Some ms) = concat (map spec_metaTag ms))"
proof (intro conjI impI)
  show "renderPageMeta None = []"
    by (simp add: renderPageMeta_def)
next
  assume d: "\<forall>m \<in> set ms. distinct (map fst m)"
  have h: "fold (\<lambda>key res. res @ '' '' @ key @ [CHR ''='', CHR 0x22] @ js_get m key @ [CHR 0x22])
             (Object_keys m) ''<meta'' @ ''>'' = spec_metaTag m" if "m \<in> set ms" for m
    using d that metaTag_spec by blast
  show "renderPageMeta (Some ms) = concat (map spec_metaTag ms)"
    using h by (simp add: renderPageMeta_def join_empty_sep cong: map_cong)
qed

theorem renderPageMeta_format_witness:
  \<open>renderPageMeta None = []
   \<and> renderPageMeta (Some [[(''name'', ''description''), (''content'', ''a "b" <c>'')], [],
                             [(''charset'', ''utf-8'')]])
     = ''<meta name="description" content="a "b" <c>"><meta><meta charset="utf-8">''\<close>
proof -
  let ?ms = "[[(''name'', ''description''),
               (''content'', ''a '' @ [CHR 0x22] @ ''b'' @ [CHR 0x22] @ '' <c>'')], [],
              [(''charset'', ''utf-8'')]] :: jsobject list"
  have d: "\<forall>m \<in> set ?ms. distinct (map fst m)"
    by simp
  from renderPageMeta_format [of ?ms] d
  have "renderPageMeta None = []" "renderPageMeta (Some ?ms) = concat (map spec_metaTag ?ms)"
    by blast+
  then show ?thesis
    by (simp add: spec_metaTag_def spec_pair_def)
qed

section \<open>The output file of a page\<close>

text \<open>
  C7. When the render of a page succeeds, \<open>renderPage\<close> writes the HTML to the file that
  \<open>path.resolve\<close> gives for the output directory and a relative name: \<open>index.html\<close> when
  the page path is \<open>/\<close>, and otherwise the page path without its leading slash, unchanged.
  In the example environment the page \<open>/foo/bar.html\<close> is written to \<open>foo/bar.html\<close> below
  the output directory.
\<close>

theorem page_output_path:
  assumes "renderer (page_context uht page) = Inr html"
    and "path page = CHR ''/'' # rest"
  shows "renderPage env out renderer uht page fs =
           (Inr (),
            fs(path_resolve env out (if rest = [] then ''index.html'' else rest) \<mapsto> html),
            [RenderToString (page_context uht page) (Inr html),
             Mkdirp (path_dirname env (path_resolve env out (if rest = [] then ''index.html'' else rest))),
             WriteFile (path_resolve env out (if rest = [] then ''index.html'' else rest)) html])"
  using assms
  by (simp add: renderPage_eq page_tree_def page_events_def page_file_def page_filename_def
      strip_leading_slash_def Let_def)

theorem page_output_path_witness:
  "renderPage (ex_env ex_ok (ex_site None [])) ''/site/dist'' (ex_renderer ''s'' ''c'' ''<html>'') []
     \<lparr> path = ''/foo/bar.html'', frontmatter = None \<rparr> Map.empty
   = (Inr (), [''/site/dist/foo/bar.html'' \<mapsto> ''<html>/foo/bar.html''],
      [RenderToString \<lparr> url = ''/foo/bar.html'', userHeadTags = [], pageMeta = [],
                         title = ''VuePress'', lang = ''en'' \<rparr> (Inr ''<html>/foo/bar.html''),
       Mkdirp ''/site/dist/foo'',
       WriteFile ''/site/dist/foo/bar.html'' ''<html>/foo/bar.html''])
   \<and> renderPage (ex_env ex_ok (ex_site None [])) ''/site/dist'' (ex_renderer ''s'' ''c'' ''<html>'') []
       \<lparr> path = ''/'', frontmatter = None \<rparr> Map.empty
   = (Inr (), [''/site/dist/index.html'' \<mapsto> ''<html>/''],
      [RenderToString \<lparr> url = ''/'', userHeadTags = [], pageMeta = [],
                         title = ''VuePress'', lang = ''en'' \<rparr> (Inr ''<html>/''),
       Mkdirp ''/site/dist'',
       WriteFile ''/site/dist/index.html'' ''<html>/''])"
proof -
  have a: "ex_renderer ''s'' ''c'' ''<html>''
             (page_context [] \<lparr> path = ''/foo/bar.html'', frontmatter = None \<rparr>)
           = Inr ''<html>/foo/bar.html''"
    and b: "ex_renderer ''s'' ''c'' ''<html>'' (page_context [] \<lparr> path = ''/'', frontmatter = None \<rparr>)
           = Inr ''<html>/''"
    by (simp_all add: ex_renderer_def page_context_def)
  have pa: "path \<lparr> path = ''/foo/bar.html'', frontmatter = None \<rparr> = CHR ''/'' # ''foo/bar.html''"
    and pb: "path \<lparr> path = ''/'', frontmatter = None \<rparr> = CHR ''/'' # []"
    by simp_all
  from page_output_path [of "ex_renderer ''s'' ''c'' ''<html>''" "[]"
      "\<lparr> path = ''/foo/bar.html'', frontmatter = None \<rparr>" "''<html>/foo/bar.html''"
      "''foo/bar.html''" "ex_env ex_ok (ex_site None [])" "''/site/dist''" Map.empty, OF a pa]
    page_output_path [of "ex_renderer ''s'' ''c'' ''<html>''" "[]"
      "\<lparr> path = ''/'', frontmatter = None \<rparr>" "''<html>/''"
      "[]" "ex_env ex_ok (ex_site None [])" "''/site/dist''" Map.empty, OF b pb]
  show ?thesis
    by (simp add: ex_env_fields page_context_def renderPageMeta_def)
qed

section \<open>Compile failures\<close>

text \<open>
  C5. When the stats of the compilation report errors, the build prints every error of the
  report and is rejected with the aggregate error \<open>Failed to compile with errors.\<close>. Its
  whole trace is the cleaning of the output directory, the run of webpack and the printed
  errors: no manifest is loaded, no chunk is read or written and no page is rendered, and
  the tree is left as webpack left it.
\<close>

theorem compile_errors_abort:
  assumes "prepare env sourceDir fs = Inr prepared"
    and "options = override_outDir cli prepared"
    and "webpack env [createClientConfig env options cli, createServerConfig env options cli]
           (fst (snd (rimraf env (outDir options) fs))) = (Inr stats, fs1)"
    and "hasErrors stats"
  shows "build env sourceDir cli fs =
           (Inl (Error ''Failed to compile with errors.''), fs1,
            [SetEnv ''NODE_ENV'' ''production'', Rimraf (outDir options), Webpack]
            @ map ConsoleError (errors (toJson stats)))"
  using assms by (simp add: build_eq compile_eq Let_def)

theorem compile_errors_abort_witness:
  "build (ex_env ex_failed (ex_site None ex_pages)) ''docs'' \<lparr> cli_outDir = None \<rparr> ex_tree =
     (Inl (Error ''Failed to compile with errors.''),
      ex_emitted (fst (snd (rimraf (ex_env ex_failed (ex_site None ex_pages)) ''/site/dist'' ex_tree))),
      [SetEnv ''NODE_ENV'' ''production'', Rimraf ''/site/dist'', Webpack,
       ConsoleError ''(client) Module not found'', ConsoleError ''(server) Syntax error''])"
proof -
  let ?env = "ex_env ex_failed (ex_site None ex_pages)"
  let ?site = "ex_site None ex_pages"
  have o: "?site = override_outDir \<lparr> cli_outDir = None \<rparr> ?site"
    by (simp add: ex_override)
  have w: "webpack ?env [createClientConfig ?env ?site \<lparr> cli_outDir = None \<rparr>,
                         createServerConfig ?env ?site \<lparr> cli_outDir = None \<rparr>]
             (fst (snd (rimraf ?env (outDir ?site) ex_tree)))
           = (Inr ex_failed, ex_emitted (fst (snd (rimraf ?env ''/site/dist'' ex_tree))))"
    by (simp add: ex_env_fields ex_site_fields)
  have h: "hasErrors ex_failed"
    by (simp add: ex_failed_def)
  from compile_errors_abort [OF ex_prepare o w h] show ?thesis
    by (simp add: ex_site_fields ex_failed_def)
qed

section \<open>The asset-stitching step\<close>



text \<open>
  C1 (amended). With the targets of the report ordered \<open>[client, server]\<close>, the step finds
  the style chunk and the app chunk in the asset list of the client target, the first
  target (\<open>stats.children[0]\<close>): each is the first asset of that list whose name ends in
  \<open>styles.\<close> or \<open>app.\<close>, eight word characters and \<open>.js\<close>. The asset list of the server
  target has no influence on the step.
\<close>

theorem stitch_searches_client_target:
  assumes "children stats = [client, server]"
  shows "findChunk styleChunkRE stats =
           (case find (\<lambda>a. styleChunkRE (name a)) (assets client) of
              None \<Rightarrow> Inl (TypeError ''Cannot read property name of undefined'')
            | Some a \<Rightarrow> Inr a)
         \<and> findChunk appChunkRE stats =
           (case find (\<lambda>a. appChunkRE (name a)) (assets client) of
              None \<Rightarrow> Inl (TypeError ''Cannot read property name of undefined'')
            | Some a \<Rightarrow> Inr a)
         \<and> workaroundEmptyStyleChunk env out stats
           = workaroundEmptyStyleChunk env out (stats\<lparr> children := [client, other] \<rparr>)"
  using assms by (simp add: findChunk_def workaroundEmptyStyleChunk_def)

theorem stitch_searches_client_target_witness:
  "findChunk styleChunkRE ex_report = Inr \<lparr> name = ''styles.ab12cd34.js'' \<rparr>
   \<and> findChunk appChunkRE ex_report = Inr \<lparr> name = ''app.ef56gh78.js'' \<rparr>
   \<and> workaroundEmptyStyleChunk (ex_env ex_ok (ex_site None [])) ''/site/dist'' ex_report
     = workaroundEmptyStyleChunk (ex_env ex_ok (ex_site None [])) ''/site/dist''
         (ex_report\<lparr> children := [ex_client, \<lparr> assets = [\<lparr> name = ''styles.00000000.js'' \<rparr>] \<rparr>] \<rparr>)"
proof -
  have c: "children ex_report = [ex_client, ex_server]"
    by (simp add: ex_report_def)
  from stitch_searches_client_target [OF c, of "ex_env ex_ok (ex_site None [])" "''/site/dist''"
      "\<lparr> assets = [\<lparr> name = ''styles.00000000.js'' \<rparr>] \<rparr>"]
  show ?thesis
    by (simp add: ex_client_def ex_style ex_app)
qed

text \<open>
  In the example report the server target emits the server manifest only: a search of its
  asset list finds neither chunk, while the step finds both in the list of the client
  target and stitches them.
\<close>

theorem stitch_not_server_target:
  "children ex_report = [ex_client, ex_server]
   \<and> spec_findChunk styleChunkRE ex_report = None
   \<and> spec_findChunk appChunkRE ex_report = None
   \<and> findChunk styleChunkRE ex_report = Inr \<lparr> name = ''styles.ab12cd34.js'' \<rparr>
   \<and> findChunk appChunkRE ex_report = Inr \<lparr> name = ''app.ef56gh78.js'' \<rparr>
   \<and> fst (workaroundEmptyStyleChunk (ex_env ex_ok (ex_site None [])) ''/site/dist'' ex_report (ex_emitted Map.empty))
     = Inr ()
   \<and> snd (snd (workaroundEmptyStyleChunk (ex_env ex_ok (ex_site None [])) ''/site/dist'' ex_report
                  (ex_emitted Map.empty)))
     = [ReadFile ''/site/dist/styles.ab12cd34.js'', Rimraf ''/site/dist/styles.ab12cd34.js'',
        ReadFile ''/site/dist/app.ef56gh78.js'', WriteFile ''/site/dist/app.ef56gh78.js'' ''SA'']"
  by (simp add: ex_report_def ex_client_def ex_server_def spec_findChunk_def spec_serverAssets_def
      findChunk_def ex_style ex_app workaround_eq ex_env_def rimraf_def ex_emitted_def)

section \<open>The pages of a build\<close>

text \<open>
  C10. Every render context that a build passes to \<open>renderToString\<close>, the one of the
  default 404 page included, has the title \<open>VuePress\<close> and the language \<open>en\<close>, and its
  \<open>userHeadTags\<close> is the one string computed from the head of the site configuration, the
  same for every page of the build; with no head in the configuration it is the empty
  string.
\<close>

theorem render_context_constants:
  assumes "build env sourceDir cli fs = (r, fs', evs)"
    and "prepare env sourceDir fs = Inr prepared"
    and "(ctx, res) \<in> set (renders_of evs)"
  shows "title ctx = ''VuePress'' \<and> lang ctx = ''en''
         \<and> userHeadTags ctx = renderUserHeadTags prepared
         \<and> (head (siteConfig prepared) = None \<longrightarrow> userHeadTags ctx = [])"
proof -
  have "renders_of evs \<noteq> []"
    using assms(3) by auto
  with build_rendering [OF assms(1,2) refl]
  obtain renderer where
    "renders_of evs = map (\<lambda>p. (page_context (renderUserHeadTags (override_outDir cli prepared)) p,
                 renderer (page_context (renderUserHeadTags (override_outDir cli prepared)) p)))
            (pages_to_render (pages (siteData (override_outDir cli prepared))))"
    by blast
  with assms(3) obtain p where "ctx = page_context (renderUserHeadTags prepared) p"
    by (auto simp: override_keeps_site)
  then have "title ctx = ''VuePress''" "lang ctx = ''en''" "userHeadTags ctx = renderUserHeadTags prepared"
    by (simp_all add: page_context_def)
  moreover have "head (siteConfig prepared) = None \<Longrightarrow> renderUserHeadTags prepared = []"
    by (simp add: renderUserHeadTags_def)
  ultimately show ?thesis by simp
qed

theorem render_context_constants_witness:
  \<open>(\<lparr> url = ''/404.html'', userHeadTags = ''<meta charset="utf-8">\<newline>  <script>1</script>'',
       pageMeta = [], title = ''VuePress'', lang = ''en'' \<rparr>, Inr ''<html>/404.html'')
     \<in> set (renders_of (snd (snd (build (ex_env ex_ok (ex_site (Some ex_head) ex_pages_ok)) ''docs''
                                     \<lparr> cli_outDir = None \<rparr> ex_tree))))
   \<and> renderUserHeadTags (ex_site (Some ex_head) ex_pages_ok)
     = ''<meta charset="utf-8">\<newline>  <script>1</script>''
   \<and> (\<lparr> url = ''/'', userHeadTags = [], pageMeta = [], title = ''VuePress'', lang = ''en'' \<rparr>,
       Inr ''<html>/'')
     \<in> set (renders_of (snd (snd (build (ex_env ex_ok (ex_site None ex_pages_ok)) ''docs''
                                     \<lparr> cli_outDir = None \<rparr> ex_tree))))
   \<and> head (siteConfig (ex_site None ex_pages_ok)) = None\<close>
proof -
  let ?a = "snd (snd (build (ex_env ex_ok (ex_site (Some ex_head) ex_pages_ok)) ''docs''
                        \<lparr> cli_outDir = None \<rparr> ex_tree))"
  let ?b = "snd (snd (build (ex_env ex_ok (ex_site None ex_pages_ok)) ''docs''
                        \<lparr> cli_outDir = None \<rparr> ex_tree))"
  have a: "(page_context (renderUserHeadTags (ex_site (Some ex_head) ex_pages_ok)) default404,
            Inr ''<html>/404.html'') \<in> set (renders_of ?a)"
    by (simp add: ex_renders pages_to_render_def ex_pages_ok_def ex_renderer_def page_context_def
        default404_def)
  have b: "(page_context (renderUserHeadTags (ex_site None ex_pages_ok)) \<lparr> path = ''/'', frontmatter = None \<rparr>,
            Inr ''<html>/'') \<in> set (renders_of ?b)"
    by (simp add: ex_renders pages_to_render_def ex_pages_ok_def ex_renderer_def page_context_def)
  have n: "head (siteConfig (ex_site None ex_pages_ok)) = None"
    by (simp add: ex_site_def)
  from render_context_constants [OF ex_build_run ex_prepare a]
  have "userHeadTags (page_context (renderUserHeadTags (ex_site (Some ex_head) ex_pages_ok)) default404)
        = renderUserHeadTags (ex_site (Some ex_head) ex_pages_ok)"
    by blast
  moreover from render_context_constants [OF ex_build_run ex_prepare b] n
  have "userHeadTags (page_context (renderUserHeadTags (ex_site None ex_pages_ok))
                        \<lparr> path = ''/'', frontmatter = None \<rparr>) = []"
    by blast
  ultimately show ?thesis
    using a b n
    by (simp add: ex_uht page_context_def default404_def renderPageMeta_def)
qed





section \<open>The manifest directory\<close>




end
